theory Spec2Isabelle
  imports Complex_Main "HOL-Library.AList" "HOL-Library.Char_ord" "HOL-Library.List_Lexorder"
begin

section \<open>Data validation of the mice protein expression pipeline\<close>

text \<open>
  A shallow embedding of \<^verbatim>\<open>mice/components/data_validation.py\<close>, class
  \<^verbatim>\<open>DataValidation\<close>. Dataframes are objects on a heap and are passed by reference, as
  in Python, so that the in-place updates of the source are visible to the caller. Every
  \<^verbatim>\<open>raise\<close> of the source is an \<open>Inl\<close> result. Floating point quotients and
  p-values are exact rationals, with one extra value for the float NaN.
\<close>

subsection \<open>Values, columns and dataframes\<close>

text \<open>A cell of a pandas column: the missing marker, a string, or a number.\<close>

datatype cell = NaN | Str string | Num rat

type_synonym column = "cell list"

text \<open>A Python float that may be NaN: \<open>None\<close> is NaN.\<close>

type_synonym pyfloat = "rat option"

text \<open>
  A dataframe: the length of its index (\<^verbatim>\<open>df.shape[0]\<close>) and its labelled columns in
  order (\<^verbatim>\<open>df.columns\<close> are the labels).
\<close>

record dataframe =
  nrows :: nat
  columns :: "(string \<times> column) list"

definition column_names :: "dataframe \<Rightarrow> string list" where
  "column_names df = map fst (columns df)"

text \<open>
  The frames that \<^verbatim>\<open>pd.read_csv\<close> produces: labels are unique and every column has
  one cell per row.
\<close>

definition wf_dataframe :: "dataframe \<Rightarrow> bool" where
  "wf_dataframe df \<longleftrightarrow>
     distinct (column_names df) \<and> list_all (\<lambda>c. length (snd c) = nrows df) (columns df)"

subsection \<open>Exceptions\<close>

text \<open>The function whose \<^verbatim>\<open>except\<close> clause wrapped an exception.\<close>

datatype site =
    In_drop_missing_value_columns
  | In_is_required_columns_exists
  | In_data_drift
  | In_initiate_data_validation

text \<open>
  Modelled from the spec: \<^verbatim>\<open>mice.exception.MiceException\<close> is not part of the sources
  at hand; it is the domain error that carries the original cause and the context of the
  place that wrapped it.
\<close>

datatype exn =
    KeyError string
  | TypeError
  | ValueError string
  | AttributeError
  | FileNotFoundError string
  | IsADirectoryError string
  | ParserError string
  | LibraryError string
  | MiceException exn site

subsection \<open>The report and the state\<close>

record drift_result =
  pvalues :: pyfloat
  same_distribution :: bool

text \<open>
  A value stored in \<^verbatim>\<open>self.validation_error\<close>: a list of column names, or the drift
  report, a dictionary from column name to result. Python dictionaries keep insertion
  order; an assignment to a present key keeps its position, which is what
  \<^const>\<open>AList.update\<close> does.
\<close>

datatype finding =
    ColumnNames "string list"
  | DriftReport "(string \<times> drift_result) list"

type_synonym report = "(string \<times> finding) list"

datatype file_content = CsvFile dataframe | YamlFile report | Directory

type_synonym ref = nat

text \<open>
  The state: the dataframe objects (a reference is an index into \<open>heap\<close>), the
  dictionary \<^verbatim>\<open>self.validation_error\<close>, and the files by path.
\<close>

record state =
  heap :: "dataframe list"
  validation_error :: report
  files :: "(string \<times> file_content) list"

record DataValidationConfig =
  missing_threshold :: rat
  base_file_path :: string
  report_file_path :: string



text \<open>What the module takes from outside: the test of scipy, and the constant
  \<^verbatim>\<open>TARGET_COLUMN\<close> of \<^verbatim>\<open>mice.config\<close>; \<open>float_of_str\<close> is Python's parsing of a
  string as a float (\<open>None\<close> when the string is not a number).\<close>

record externals =
  ks_2samp :: "column \<Rightarrow> column \<Rightarrow> exn + pyfloat"
  float_of_str :: "string \<Rightarrow> pyfloat option"
  TARGET_COLUMN :: string

subsection \<open>Sequencing with exceptions\<close>

text \<open>Run \<open>m\<close>; if it raised, stop with its exception, otherwise go on with \<open>f\<close>.\<close>

definition and_then ::
  "(exn + 'a) \<times> state \<Rightarrow> ('a \<Rightarrow> state \<Rightarrow> (exn + 'b) \<times> state) \<Rightarrow> (exn + 'b) \<times> state" where
  "and_then m f = (case m of (Inl e, s) \<Rightarrow> (Inl e, s) | (Inr x, s) \<Rightarrow> f x s)"

text \<open>\<^verbatim>\<open>except Exception as e: raise MiceException(e, sys)\<close>\<close>

definition wrap_exception :: "site \<Rightarrow> (exn + 'a) \<times> state \<Rightarrow> (exn + 'a) \<times> state" where
  "wrap_exception w m =
     (case m of (Inl e, s) \<Rightarrow> (Inl (MiceException e w), s) | (Inr x, s) \<Rightarrow> (Inr x, s))"

subsection \<open>The pandas and scikit-learn operations that the module calls\<close>

text \<open>\<^verbatim>\<open>df[name]\<close>: the column, or KeyError.\<close>

definition getitem :: "ref \<Rightarrow> string \<Rightarrow> state \<Rightarrow> (exn + column) \<times> state" where
  "getitem df name s =
     (case map_of (columns (heap s ! df)) name of
        None \<Rightarrow> (Inl (KeyError name), s)
      | Some c \<Rightarrow> (Inr c, s))"

text \<open>\<^verbatim>\<open>df[name] = col\<close>, on the object itself: a present label keeps its place.\<close>

definition setitem :: "ref \<Rightarrow> string \<Rightarrow> column \<Rightarrow> state \<Rightarrow> state" where
  "setitem df name col s =
     s\<lparr>heap := (heap s)[df := (heap s ! df)\<lparr>columns := AList.update name col (columns (heap s ! df))\<rparr>]\<rparr>"

text \<open>\<^verbatim>\<open>Series.map(d)\<close> with a dictionary whose keys are strings: a value that is not a
  key, the missing marker included, becomes NaN.\<close>

definition series_map :: "(string \<times> rat) list \<Rightarrow> column \<Rightarrow> column" where
  "series_map d col =
     map (\<lambda>c. case c of
                 Str v \<Rightarrow> (case map_of d v of Some code \<Rightarrow> Num code | None \<Rightarrow> NaN)
               | _ \<Rightarrow> NaN) col"

fun index_of :: "'a list \<Rightarrow> 'a \<Rightarrow> nat" where
  "index_of [] y = 0"
| "index_of (x # xs) y = (if x = y then 0 else Suc (index_of xs y))"

text \<open>
  \<^verbatim>\<open>LabelEncoder().fit_transform(col)\<close>: the classes are the distinct values in sorted
  order, a missing value last, and each value is replaced by the position of its class.
  A column that mixes strings and numbers is refused with a TypeError.
\<close>

definition label_classes :: "column \<Rightarrow> cell list" where
  "label_classes col =
     map Str (sort (remdups [v. Str v \<leftarrow> col])) @
     map Num (sort (remdups [x. Num x \<leftarrow> col])) @
     (if NaN \<in> set col then [NaN] else [])"

definition fit_transform :: "column \<Rightarrow> exn + column" where
  "fit_transform col =
     (if (\<exists>c \<in> set col. case c of Str _ \<Rightarrow> True | _ \<Rightarrow> False) \<and>
         (\<exists>c \<in> set col. case c of Num _ \<Rightarrow> True | _ \<Rightarrow> False)
      then Inl TypeError
      else Inr (map (\<lambda>c. Num (of_nat (index_of (label_classes col) c))) col))"

definition isna :: "cell \<Rightarrow> bool" where
  "isna c = (case c of NaN \<Rightarrow> True | _ \<Rightarrow> False)"

text \<open>
  \<^verbatim>\<open>df.isna().sum() / df.shape[0]\<close>: per column, the number of missing cells divided
  by the number of rows. With no rows the quotient is \<^verbatim>\<open>0/0\<close>, which is NaN in pandas.
\<close>

definition null_ratio :: "nat \<Rightarrow> column \<Rightarrow> pyfloat" where
  "null_ratio n col =
     (if n = 0 then None else Some (of_nat (length (filter isna col)) / of_nat n))"

definition null_report :: "dataframe \<Rightarrow> (string \<times> pyfloat) list" where
  "null_report df = map (\<lambda>(name, col). (name, null_ratio (nrows df) col)) (columns df)"

text \<open>\<^verbatim>\<open>x > t\<close> on floats: false when \<open>x\<close> is NaN.\<close>

definition float_gt :: "pyfloat \<Rightarrow> rat \<Rightarrow> bool" where
  "float_gt x t = (case x of None \<Rightarrow> False | Some v \<Rightarrow> v > t)"

text \<open>\<^verbatim>\<open>df.drop(names, axis=1, inplace=True)\<close> for labels that are all present.\<close>

definition drop_inplace :: "ref \<Rightarrow> string list \<Rightarrow> state \<Rightarrow> state" where
  "drop_inplace df names s =
     s\<lparr>heap := (heap s)[df := (heap s ! df)\<lparr>columns :=
          filter (\<lambda>c. fst c \<notin> set names) (columns (heap s ! df))\<rparr>]\<rparr>"

subsection \<open>\<^verbatim>\<open>drop_missing_value_columns\<close>\<close>

text \<open>Lines 44 to 48: the three dictionary encodings and the label encoding of
  \<^verbatim>\<open>class\<close>, each written back into the dataframe before the next one is read.\<close>

definition categorical_encode :: "ref \<Rightarrow> state \<Rightarrow> (exn + unit) \<times> state" where
  "categorical_encode df s =
     and_then (getitem df ''Genotype'' s) (\<lambda>g s.
     let s = setitem df ''Genotype'' (series_map [(''Control'', 0), (''Ts65Dn'', 1)] g) s in
     and_then (getitem df ''Treatment'' s) (\<lambda>t s.
     let s = setitem df ''Treatment'' (series_map [(''Saline'', 0), (''Memantine'', 1)] t) s in
     and_then (getitem df ''Behavior'' s) (\<lambda>b s.
     let s = setitem df ''Behavior'' (series_map [(''C/S'', 0), (''S/C'', 1)] b) s in
     and_then (getitem df ''class'' s) (\<lambda>c s.
     and_then (fit_transform c, s) (\<lambda>y s.
     (Inr (), setitem df ''class'' y s))))))"

text \<open>Lines 49 to 61: the ratios, the report entry, the drop, and the result.\<close>

definition drop_columns_over_threshold ::
  "rat \<Rightarrow> ref \<Rightarrow> string \<Rightarrow> state \<Rightarrow> (exn + ref option) \<times> state" where
  "drop_columns_over_threshold threshold df report_key_name s =
     (let drop_column_names =
            map fst (filter (\<lambda>r. float_gt (snd r) threshold) (null_report (heap s ! df)));
          s = s\<lparr>validation_error :=
                  AList.update report_key_name (ColumnNames drop_column_names) (validation_error s)\<rparr>;
          s = drop_inplace df drop_column_names s
      in if length (columns (heap s ! df)) = 0 then (Inr None, s) else (Inr (Some df), s))"

definition drop_missing_value_columns ::
  "DataValidationConfig \<Rightarrow> ref \<Rightarrow> string \<Rightarrow> state \<Rightarrow> (exn + ref option) \<times> state" where
  "drop_missing_value_columns cfg df report_key_name s =
     wrap_exception In_drop_missing_value_columns
       (let threshold = missing_threshold cfg in
        and_then (categorical_encode df s) (\<lambda>_ s.
        drop_columns_over_threshold threshold df report_key_name s))"

subsection \<open>\<^verbatim>\<open>is_required_columns_exists\<close>\<close>

text \<open>The loop of lines 77 to 80, with the list \<^verbatim>\<open>missing_columns\<close> as accumulator.\<close>

fun missing_columns_loop :: "string list \<Rightarrow> string list \<Rightarrow> string list \<Rightarrow> string list" where
  "missing_columns_loop [] current_columns missing_columns = missing_columns"
| "missing_columns_loop (base_column # rest) current_columns missing_columns =
     (if base_column \<notin> set current_columns
      then missing_columns_loop rest current_columns (missing_columns @ [base_column])
      else missing_columns_loop rest current_columns missing_columns)"

definition is_required_columns_exists ::
  "ref \<Rightarrow> ref \<Rightarrow> string \<Rightarrow> state \<Rightarrow> (exn + bool) \<times> state" where
  "is_required_columns_exists base_df current_df report_key_name s =
     wrap_exception In_is_required_columns_exists
       (let base_columns = column_names (heap s ! base_df);
            current_columns = column_names (heap s ! current_df);
            missing_columns = missing_columns_loop base_columns current_columns []
        in if length missing_columns > 0
           then (Inr False,
                 s\<lparr>validation_error :=
                     AList.update report_key_name (ColumnNames missing_columns) (validation_error s)\<rparr>)
           else (Inr True, s))"

subsection \<open>\<^verbatim>\<open>data_drift\<close>\<close>

text \<open>
  The loop of lines 99 to 119. The dictionary \<^verbatim>\<open>drift_report\<close> is stored under the
  report key inside the loop, at the end of every round, so nothing is stored when the
  base has no column. The literal \<^verbatim>\<open>0.05\<close> is the rational \<open>5/100\<close>.
\<close>

fun drift_loop ::
  "externals \<Rightarrow> ref \<Rightarrow> ref \<Rightarrow> string \<Rightarrow> string list \<Rightarrow> (string \<times> drift_result) list \<Rightarrow> state
     \<Rightarrow> (exn + unit) \<times> state" where
  "drift_loop ext base_df current_df report_key_name [] drift_report s = (Inr (), s)"
| "drift_loop ext base_df current_df report_key_name (base_column # rest) drift_report s =
     and_then (getitem base_df base_column s) (\<lambda>base_data s.
     and_then (getitem current_df base_column s) (\<lambda>current_data s.
     and_then (ks_2samp ext base_data current_data, s) (\<lambda>pvalue s.
     let drift_report =
           (if float_gt pvalue (5 / 100)
            then AList.update base_column \<lparr>pvalues = pvalue, same_distribution = True\<rparr> drift_report
            else AList.update base_column \<lparr>pvalues = pvalue, same_distribution = False\<rparr> drift_report);
         s = s\<lparr>validation_error :=
                 AList.update report_key_name (DriftReport drift_report) (validation_error s)\<rparr>
     in drift_loop ext base_df current_df report_key_name rest drift_report s)))"

definition data_drift ::
  "externals \<Rightarrow> ref \<Rightarrow> ref \<Rightarrow> string \<Rightarrow> state \<Rightarrow> (exn + unit) \<times> state" where
  "data_drift ext base_df current_df report_key_name s =
     wrap_exception In_data_drift
       (let drift_report = [];
            base_columns = column_names (heap s ! base_df)
        in drift_loop ext base_df current_df report_key_name base_columns drift_report s)"

subsection \<open>Files and the helpers of \<^verbatim>\<open>mice.utils\<close>\<close>

text \<open>
  \<^verbatim>\<open>pd.read_csv(path)\<close>: a new dataframe object holding the table of the file. The
  parsing of the text is not modelled: a file either holds a table or does not.
\<close>

definition read_csv :: "string \<Rightarrow> state \<Rightarrow> (exn + ref) \<times> state" where
  "read_csv path s =
     (case map_of (files s) path of
        None \<Rightarrow> (Inl (FileNotFoundError path), s)
      | Some Directory \<Rightarrow> (Inl (IsADirectoryError path), s)
      | Some (YamlFile _) \<Rightarrow> (Inl (ParserError path), s)
      | Some (CsvFile d) \<Rightarrow> (Inr (length (heap s)), s\<lparr>heap := heap s @ [d]\<rparr>))"

text \<open>\<^verbatim>\<open>df.drop(columns=names)\<close>: a new object without these columns; KeyError when a
  label is absent.\<close>

definition drop_columns :: "ref \<Rightarrow> string list \<Rightarrow> state \<Rightarrow> (exn + ref) \<times> state" where
  "drop_columns df names s =
     (case filter (\<lambda>n. n \<notin> set (column_names (heap s ! df))) names of
        n # _ \<Rightarrow> (Inl (KeyError n), s)
      | [] \<Rightarrow> (Inr (length (heap s)),
               s\<lparr>heap := heap s @ [(heap s ! df)\<lparr>columns :=
                    filter (\<lambda>c. fst c \<notin> set names) (columns (heap s ! df))\<rparr>]\<rparr>))"

text \<open>\<^verbatim>\<open>df.replace({v: np.NAN}, inplace=True)\<close> for a string \<open>v\<close>.\<close>

definition replace_inplace :: "ref \<Rightarrow> string \<Rightarrow> state \<Rightarrow> state" where
  "replace_inplace df v s =
     s\<lparr>heap := (heap s)[df := (heap s ! df)\<lparr>columns :=
          map (\<lambda>(name, col). (name, map (\<lambda>c. if c = Str v then NaN else c) col))
              (columns (heap s ! df))\<rparr>]\<rparr>"

definition astype_float :: "externals \<Rightarrow> cell \<Rightarrow> exn + cell" where
  "astype_float ext c =
     (case c of
        NaN \<Rightarrow> Inr NaN
      | Num x \<Rightarrow> Inr (Num x)
      | Str v \<Rightarrow> (case float_of_str ext v of
                    None \<Rightarrow> Inl (ValueError v)
                  | Some None \<Rightarrow> Inr NaN
                  | Some (Some x) \<Rightarrow> Inr (Num x)))"

fun astype_float_column :: "externals \<Rightarrow> column \<Rightarrow> exn + column" where
  "astype_float_column ext [] = Inr []"
| "astype_float_column ext (c # cs) =
     (case astype_float ext c of
        Inl e \<Rightarrow> Inl e
      | Inr c' \<Rightarrow> (case astype_float_column ext cs of Inl e \<Rightarrow> Inl e | Inr cs' \<Rightarrow> Inr (c' # cs')))"

fun convert_loop ::
  "externals \<Rightarrow> string list \<Rightarrow> (string \<times> column) list \<Rightarrow> exn + (string \<times> column) list" where
  "convert_loop ext exclude_columns [] = Inr []"
| "convert_loop ext exclude_columns ((name, col) # rest) =
     (case (if name \<notin> set exclude_columns then astype_float_column ext col else Inr col) of
        Inl e \<Rightarrow> Inl e
      | Inr col' \<Rightarrow> (case convert_loop ext exclude_columns rest of
                      Inl e \<Rightarrow> Inl e
                    | Inr rest' \<Rightarrow> Inr ((name, col') # rest')))"

text \<open>
  Modelled from the spec: \<^verbatim>\<open>utils.convert_columns_float\<close> is not part of the sources at
  hand. It turns every column but the excluded ones into floating point numbers, on
  the dataframe it is given, and returns that dataframe; a string that is no number is a
  ValueError, and \<^verbatim>\<open>None\<close> in place of a dataframe is an AttributeError.
\<close>

definition convert_columns_float ::
  "externals \<Rightarrow> ref option \<Rightarrow> string list \<Rightarrow> state \<Rightarrow> (exn + ref) \<times> state" where
  "convert_columns_float ext df exclude_columns s =
     (case df of
        None \<Rightarrow> (Inl AttributeError, s)
      | Some r \<Rightarrow>
          (case convert_loop ext exclude_columns (columns (heap s ! r)) of
             Inl e \<Rightarrow> (Inl e, s)
           | Inr cs \<Rightarrow> (Inr r, s\<lparr>heap := (heap s)[r := (heap s ! r)\<lparr>columns := cs\<rparr>]\<rparr>)))"


subsection \<open>\<^verbatim>\<open>initiate_data_validation\<close>\<close>




subsection \<open>Concrete inputs\<close>


definition example_train :: dataframe where
  "example_train = \<lparr>nrows = 2, columns =
     [(''P1'', [Num 1, Num 2]),
      (''P2'', [Num 1, Num 2]),
      (''Genotype'', [Str ''Control'', Str ''Ts65Dn'']),
      (''Treatment'', [Str ''Saline'', Str ''Memantine'']),
      (''Behavior'', [Str ''C/S'', Str ''S/C'']),
      (''class'', [Str ''c-CS-s'', Str ''t-SC-m''])]\<rparr>"

definition example_test :: dataframe where
  "example_test = \<lparr>nrows = 2, columns =
     [(''P1'', [Num 1, Num 2]),
      (''Genotype'', [Str ''Control'', Str ''Ts65Dn'']),
      (''Treatment'', [Str ''Saline'', Str ''Memantine'']),
      (''Behavior'', [Str ''C/S'', Str ''S/C'']),
      (''class'', [Str ''c-CS-s'', Str ''t-SC-m''])]\<rparr>"

text \<open>A table whose \<open>Genotype\<close> column holds a value outside the dictionary.\<close>

definition example_unmapped :: dataframe where
  "example_unmapped = \<lparr>nrows = 2, columns =
     [(''Genotype'', [Str ''Control'', Str ''Trisomic'']),
      (''Treatment'', [Str ''Saline'', Str ''Memantine'']),
      (''Behavior'', [Str ''C/S'', Str ''S/C'']),
      (''class'', [Str ''t-SC-m'', Str ''c-CS-s'']),
      (''P1'', [Num 1, Num 2])]\<rparr>"

definition example_config :: DataValidationConfig where
  "example_config = \<lparr>missing_threshold = 2 / 10, base_file_path = ''base.csv'',
     report_file_path = ''report.yaml''\<rparr>"



definition example_heap_state :: state where
  "example_heap_state =
     \<lparr>heap = [example_unmapped, example_train, example_test], validation_error = [], files = []\<rparr>"


section \<open>Properties\<close>

subsection \<open>Schema parity\<close>

lemma missing_columns_loop_eq:
  "missing_columns_loop bs cur acc = acc @ filter (\<lambda>b. b \<notin> set cur) bs"
  by (induction bs arbitrary: acc) auto

text \<open>
  C2. The parity check returns True exactly when every column name of the base is a
  column name of the candidate. When it returns True it changes nothing; when it
  returns False, the list stored under the report key holds exactly the base names
  that the candidate lacks.
\<close>

theorem is_required_columns_exists_verdict:
  assumes "is_required_columns_exists base_df current_df key s = (r, s')"
  shows "r = Inr (set (column_names (heap s ! base_df)) \<subseteq> set (column_names (heap s ! current_df))) \<and>
     (r = Inr True \<longrightarrow> s' = s) \<and>
     (r = Inr False \<longrightarrow>
        (\<exists>missing. map_of (validation_error s') key = Some (ColumnNames missing) \<and>
           set missing =
             set (column_names (heap s ! base_df)) - set (column_names (heap s ! current_df))))"
  using assms
  by (auto simp: is_required_columns_exists_def wrap_exception_def missing_columns_loop_eq Let_def
      AList.update_conv' filter_empty_conv split: if_splits)

theorem is_required_columns_exists_verdict_witness:
  "is_required_columns_exists 1 2 ''k'' example_heap_state =
     (Inr False, example_heap_state\<lparr>validation_error := [(''k'', ColumnNames [''P2''])]\<rparr>) \<and>
   (\<exists>missing. map_of [(''k'', ColumnNames [''P2''])] ''k'' = Some (ColumnNames missing) \<and>
      set missing = set (column_names (heap example_heap_state ! 1)) -
                    set (column_names (heap example_heap_state ! 2)))"
proof -
  have run: "is_required_columns_exists 1 2 ''k'' example_heap_state =
     (Inr False, example_heap_state\<lparr>validation_error := [(''k'', ColumnNames [''P2''])]\<rparr>)"
    by code_simp
  from is_required_columns_exists_verdict [OF run] show ?thesis
    using run by simp
qed

subsection \<open>Encoding and dropping columns\<close>

lemma and_then_Inr:
  "and_then m f = (Inr y, s') \<longleftrightarrow> (\<exists>x s1. m = (Inr x, s1) \<and> f x s1 = (Inr y, s'))"
  by (auto simp: and_then_def split: prod.splits sum.splits)

lemma and_then_Inl:
  "and_then m f = (Inl e, s') \<longleftrightarrow>
     m = (Inl e, s') \<or> (\<exists>x s1. m = (Inr x, s1) \<and> f x s1 = (Inl e, s'))"
  by (auto simp: and_then_def split: prod.splits sum.splits)

lemma wrap_exception_Inr:
  "wrap_exception w m = (Inr x, s') \<longleftrightarrow> m = (Inr x, s')"
  by (auto simp: wrap_exception_def split: prod.splits sum.splits)

lemma wrap_exception_Inl:
  "wrap_exception w m = (Inl e, s') \<longleftrightarrow> (\<exists>c. e = MiceException c w \<and> m = (Inl c, s'))"
  by (auto simp: wrap_exception_def split: prod.splits sum.splits)

lemma getitem_Inr:
  "getitem df name s = (Inr c, s1) \<longleftrightarrow> s1 = s \<and> map_of (columns (heap s ! df)) name = Some c"
  by (auto simp: getitem_def split: option.splits)

lemma getitem_Inl:
  "getitem df name s = (Inl e, s1) \<longleftrightarrow>
     s1 = s \<and> e = KeyError name \<and> map_of (columns (heap s ! df)) name = None"
  by (auto simp: getitem_def split: option.splits)

lemma heap_setitem:
  "df < length (heap s) \<Longrightarrow>
   heap (setitem df name col s) ! df =
     (heap s ! df)\<lparr>columns := AList.update name col (columns (heap s ! df))\<rparr>"
  by (simp add: setitem_def)

lemma setitem_frame [simp]:
  "length (heap (setitem df name col s)) = length (heap s)"
  "validation_error (setitem df name col s) = validation_error s"
  "files (setitem df name col s) = files s"
  "r \<noteq> df \<Longrightarrow> heap (setitem df name col s) ! r = heap s ! r"
  by (simp_all add: setitem_def)

text \<open>The state after a successful encoding.\<close>

lemma categorical_encode_Inr:
  assumes "df < length (heap s)" and "categorical_encode df s = (Inr u, s1)"
  shows "\<exists>g t b c y.
     map_of (columns (heap s ! df)) ''Genotype'' = Some g \<and>
     map_of (columns (heap s ! df)) ''Treatment'' = Some t \<and>
     map_of (columns (heap s ! df)) ''Behavior'' = Some b \<and>
     map_of (columns (heap s ! df)) ''class'' = Some c \<and>
     fit_transform c = Inr y \<and>
     s1 = s\<lparr>heap := (heap s)[df := (heap s ! df)\<lparr>columns :=
            AList.update ''class'' y
             (AList.update ''Behavior'' (series_map [(''C/S'', 0), (''S/C'', 1)] b)
               (AList.update ''Treatment'' (series_map [(''Saline'', 0), (''Memantine'', 1)] t)
                 (AList.update ''Genotype'' (series_map [(''Control'', 0), (''Ts65Dn'', 1)] g)
                   (columns (heap s ! df)))))\<rparr>]\<rparr>"
  using assms
  by (auto simp: categorical_encode_def and_then_Inr getitem_Inr Let_def heap_setitem
      AList.update_conv' setitem_def)

lemma categorical_encode_length:
  "categorical_encode df s = (r, s1) \<Longrightarrow> length (heap s1) = length (heap s)"
  by (auto simp: categorical_encode_def and_then_def getitem_def Let_def
      split: option.splits sum.splits prod.splits)

lemma drop_columns_over_threshold_eq:
  assumes "df < length (heap s)"
  shows "drop_columns_over_threshold t df key s =
     (if filter (\<lambda>c. fst c \<notin> set (map fst (filter (\<lambda>r. float_gt (snd r) t) (null_report (heap s ! df)))))
           (columns (heap s ! df)) = [] then Inr None else Inr (Some df),
      s\<lparr>validation_error := AList.update key
            (ColumnNames (map fst (filter (\<lambda>r. float_gt (snd r) t) (null_report (heap s ! df)))))
            (validation_error s),
         heap := (heap s)[df := (heap s ! df)\<lparr>columns :=
            filter (\<lambda>c. fst c \<notin> set (map fst (filter (\<lambda>r. float_gt (snd r) t) (null_report (heap s ! df)))))
              (columns (heap s ! df))\<rparr>]\<rparr>)"
  using assms by (simp add: drop_columns_over_threshold_def Let_def drop_inplace_def)

lemma drop_missing_value_columns_Inr:
  "drop_missing_value_columns cfg df key s = (Inr ret, s') \<longleftrightarrow>
     (\<exists>s1. categorical_encode df s = (Inr (), s1) \<and>
        drop_columns_over_threshold (missing_threshold cfg) df key s1 = (Inr ret, s'))"
  by (auto simp: drop_missing_value_columns_def wrap_exception_Inr and_then_Inr Let_def)

lemma dropped_names_distinct:
  assumes "distinct (map fst cols)" and "c \<in> set cols"
  shows "fst c \<in> set (map fst (filter (\<lambda>r. float_gt (snd r) t)
            (map (\<lambda>(name, col). (name, null_ratio n col)) cols))) \<longleftrightarrow>
         float_gt (null_ratio n (snd c)) t"
proof
  assume "fst c \<in> set (map fst (filter (\<lambda>r. float_gt (snd r) t)
            (map (\<lambda>(name, col). (name, null_ratio n col)) cols)))"
  then obtain c' where c': "c' \<in> set cols" "fst c' = fst c" "float_gt (null_ratio n (snd c')) t"
    by (auto simp: case_prod_beta)
  from assms c'(1,2) have "c' = c"
    by (metis eq_key_imp_eq_value prod.collapse)
  with c'(3) show "float_gt (null_ratio n (snd c)) t" by simp
next
  assume "float_gt (null_ratio n (snd c)) t"
  with assms(2) show "fst c \<in> set (map fst (filter (\<lambda>r. float_gt (snd r) t)
            (map (\<lambda>(name, col). (name, null_ratio n col)) cols)))"
    by (force simp: case_prod_beta)
qed

lemma filter_dropped_names:
  assumes "distinct (map fst cols)"
  shows "filter (\<lambda>c. fst c \<notin> set (map fst (filter (\<lambda>r. float_gt (snd r) t)
            (map (\<lambda>(name, col). (name, null_ratio n col)) cols)))) cols =
         filter (\<lambda>c. \<not> float_gt (null_ratio n (snd c)) t) cols"
  by (rule filter_cong) (use dropped_names_distinct [OF assms] in auto)

lemma dropped_names_eq:
  "map fst (filter (\<lambda>r. float_gt (snd r) t) (map (\<lambda>(name, col). (name, null_ratio n col)) cols)) =
   map fst (filter (\<lambda>c. float_gt (null_ratio n (snd c)) t) cols)"
  by (induction cols) auto

lemma categorical_encode_eq:
  assumes "df < length (heap s)"
    and "map_of (columns (heap s ! df)) ''Genotype'' = Some g"
    and "map_of (columns (heap s ! df)) ''Treatment'' = Some t"
    and "map_of (columns (heap s ! df)) ''Behavior'' = Some b"
    and "map_of (columns (heap s ! df)) ''class'' = Some c"
  shows "categorical_encode df s =
     (case fit_transform c of
        Inl e \<Rightarrow> (Inl e, s\<lparr>heap := (heap s)[df := (heap s ! df)\<lparr>columns :=
               (AList.update ''Behavior'' (series_map [(''C/S'', 0), (''S/C'', 1)] b)
                 (AList.update ''Treatment'' (series_map [(''Saline'', 0), (''Memantine'', 1)] t)
                   (AList.update ''Genotype'' (series_map [(''Control'', 0), (''Ts65Dn'', 1)] g)
                     (columns (heap s ! df)))))\<rparr>]\<rparr>)
      | Inr y \<Rightarrow> (Inr (), s\<lparr>heap := (heap s)[df := (heap s ! df)\<lparr>columns :=
            AList.update ''class'' y
             (AList.update ''Behavior'' (series_map [(''C/S'', 0), (''S/C'', 1)] b)
               (AList.update ''Treatment'' (series_map [(''Saline'', 0), (''Memantine'', 1)] t)
                 (AList.update ''Genotype'' (series_map [(''Control'', 0), (''Ts65Dn'', 1)] g)
                   (columns (heap s ! df)))))\<rparr>]\<rparr>))"
  using assms
  by (simp add: categorical_encode_def and_then_def getitem_def Let_def setitem_def
      AList.update_conv' split: sum.splits)

lemma update_present_keys:
  "map_of al k = Some v \<Longrightarrow> map fst (AList.update k v' al) = map fst al"
  by (induction al) (auto split: if_splits)

lemma list_all_update:
  "list_all P al \<Longrightarrow> P (k, v) \<Longrightarrow> list_all P (AList.update k v al)"
  by (induction al) auto

lemma map_of_filter_keys:
  "map_of (filter (\<lambda>c. fst c \<notin> S) al) k = (if k \<in> S then None else map_of al k)"
  by (induction al) auto

lemma length_series_map [simp]: "length (series_map d col) = length col"
  by (simp add: series_map_def)

lemma fit_transform_length: "fit_transform c = Inr y \<Longrightarrow> length y = length c"
  by (auto simp: fit_transform_def split: if_splits)

lemma series_map_cells:
  "set (series_map [(k0, 0), (k1, 1)] col) \<subseteq> {Num 0, Num 1, NaN}"
  by (auto simp: series_map_def split: cell.splits)

lemma fit_transform_cells:
  "fit_transform c = Inr y \<Longrightarrow> v \<in> set y \<Longrightarrow> \<exists>k::nat. v = Num (of_nat k)"
  by (auto simp: fit_transform_def split: if_splits)

lemma map_of_length:
  "list_all (\<lambda>c. length (snd c) = n) al \<Longrightarrow> map_of al k = Some v \<Longrightarrow> length v = n"
  by (induction al) (auto split: if_splits)

text \<open>What a successful encoding changes, and what it leaves alone.\<close>

lemma categorical_encode_frame:
  assumes "df < length (heap s)" and "categorical_encode df s = (Inr u, s1)"
  shows "length (heap s1) = length (heap s)"
    and "validation_error s1 = validation_error s"
    and "files s1 = files s"
    and "\<forall>r. r \<noteq> df \<longrightarrow> heap s1 ! r = heap s ! r"
    and "nrows (heap s1 ! df) = nrows (heap s ! df)"
    and "column_names (heap s1 ! df) = column_names (heap s ! df)"
    and "\<exists>g t b c y.
       map_of (columns (heap s ! df)) ''Genotype'' = Some g \<and>
       map_of (columns (heap s ! df)) ''Treatment'' = Some t \<and>
       map_of (columns (heap s ! df)) ''Behavior'' = Some b \<and>
       map_of (columns (heap s ! df)) ''class'' = Some c \<and>
       fit_transform c = Inr y \<and>
       map_of (columns (heap s1 ! df)) =
         (map_of (columns (heap s ! df)))
           (''Genotype'' \<mapsto> series_map [(''Control'', 0), (''Ts65Dn'', 1)] g,
            ''Treatment'' \<mapsto> series_map [(''Saline'', 0), (''Memantine'', 1)] t,
            ''Behavior'' \<mapsto> series_map [(''C/S'', 0), (''S/C'', 1)] b,
            ''class'' \<mapsto> y)"
proof -
  from categorical_encode_Inr [OF assms] obtain g t b c y where
    g: "map_of (columns (heap s ! df)) ''Genotype'' = Some g" and
    t: "map_of (columns (heap s ! df)) ''Treatment'' = Some t" and
    b: "map_of (columns (heap s ! df)) ''Behavior'' = Some b" and
    c: "map_of (columns (heap s ! df)) ''class'' = Some c" and
    y: "fit_transform c = Inr y" and
    s1: "s1 = s\<lparr>heap := (heap s)[df := (heap s ! df)\<lparr>columns :=
            AList.update ''class'' y
             (AList.update ''Behavior'' (series_map [(''C/S'', 0), (''S/C'', 1)] b)
               (AList.update ''Treatment'' (series_map [(''Saline'', 0), (''Memantine'', 1)] t)
                 (AList.update ''Genotype'' (series_map [(''Control'', 0), (''Ts65Dn'', 1)] g)
                   (columns (heap s ! df)))))\<rparr>]\<rparr>"
    by blast
  show "length (heap s1) = length (heap s)" "validation_error s1 = validation_error s"
    "files s1 = files s" "\<forall>r. r \<noteq> df \<longrightarrow> heap s1 ! r = heap s ! r"
    "nrows (heap s1 ! df) = nrows (heap s ! df)"
    using assms(1) by (simp_all add: s1)
  have keys: "map fst (AList.update ''class'' y
             (AList.update ''Behavior'' (series_map [(''C/S'', 0), (''S/C'', 1)] b)
               (AList.update ''Treatment'' (series_map [(''Saline'', 0), (''Memantine'', 1)] t)
                 (AList.update ''Genotype'' (series_map [(''Control'', 0), (''Ts65Dn'', 1)] g)
                   (columns (heap s ! df)))))) = map fst (columns (heap s ! df))"
    using g t b c
    by (subst update_present_keys [where v = c] update_present_keys [where v = b]
          update_present_keys [where v = t] update_present_keys [where v = g],
        simp add: AList.update_conv')+ simp
  show "column_names (heap s1 ! df) = column_names (heap s ! df)"
    using assms(1) keys by (simp add: s1 column_names_def)
  show "\<exists>g t b c y.
       map_of (columns (heap s ! df)) ''Genotype'' = Some g \<and>
       map_of (columns (heap s ! df)) ''Treatment'' = Some t \<and>
       map_of (columns (heap s ! df)) ''Behavior'' = Some b \<and>
       map_of (columns (heap s ! df)) ''class'' = Some c \<and>
       fit_transform c = Inr y \<and>
       map_of (columns (heap s1 ! df)) =
         (map_of (columns (heap s ! df)))
           (''Genotype'' \<mapsto> series_map [(''Control'', 0), (''Ts65Dn'', 1)] g,
            ''Treatment'' \<mapsto> series_map [(''Saline'', 0), (''Memantine'', 1)] t,
            ''Behavior'' \<mapsto> series_map [(''C/S'', 0), (''S/C'', 1)] b,
            ''class'' \<mapsto> y)"
    using g t b c y assms(1) by (simp add: s1 AList.update_conv')
qed

lemma categorical_encode_wf:
  assumes "df < length (heap s)" and "categorical_encode df s = (Inr u, s1)"
    and "wf_dataframe (heap s ! df)"
  shows "wf_dataframe (heap s1 ! df)"
proof -
  from categorical_encode_Inr [OF assms(1,2)] obtain g t b c y where
    g: "map_of (columns (heap s ! df)) ''Genotype'' = Some g" and
    t: "map_of (columns (heap s ! df)) ''Treatment'' = Some t" and
    b: "map_of (columns (heap s ! df)) ''Behavior'' = Some b" and
    c: "map_of (columns (heap s ! df)) ''class'' = Some c" and
    y: "fit_transform c = Inr y" and
    s1: "s1 = s\<lparr>heap := (heap s)[df := (heap s ! df)\<lparr>columns :=
            AList.update ''class'' y
             (AList.update ''Behavior'' (series_map [(''C/S'', 0), (''S/C'', 1)] b)
               (AList.update ''Treatment'' (series_map [(''Saline'', 0), (''Memantine'', 1)] t)
                 (AList.update ''Genotype'' (series_map [(''Control'', 0), (''Ts65Dn'', 1)] g)
                   (columns (heap s ! df)))))\<rparr>]\<rparr>"
    by blast
  have all: "list_all (\<lambda>c. length (snd c) = nrows (heap s ! df)) (columns (heap s ! df))"
    using assms(3) by (simp add: wf_dataframe_def)
  note len = map_of_length [OF all]
  have "list_all (\<lambda>c. length (snd c) = nrows (heap s ! df))
     (AList.update ''class'' y
             (AList.update ''Behavior'' (series_map [(''C/S'', 0), (''S/C'', 1)] b)
               (AList.update ''Treatment'' (series_map [(''Saline'', 0), (''Memantine'', 1)] t)
                 (AList.update ''Genotype'' (series_map [(''Control'', 0), (''Ts65Dn'', 1)] g)
                   (columns (heap s ! df))))))"
    using all len [OF g] len [OF t] len [OF b] len [OF c] fit_transform_length [OF y]
    by (intro list_all_update) simp_all
  moreover have "distinct (column_names (heap s1 ! df))"
    using categorical_encode_frame(6) [OF assms(1,2)] assms(3) by (simp add: wf_dataframe_def)
  ultimately show ?thesis
    using assms(1) by (simp add: wf_dataframe_def s1)
qed

lemma key_dropped_iff:
  assumes "distinct (map fst al)" and "map_of al k = Some v"
  shows "k \<in> set (map fst (filter (\<lambda>c. P (snd c)) al)) \<longleftrightarrow> P v"
proof
  assume "k \<in> set (map fst (filter (\<lambda>c. P (snd c)) al))"
  then obtain c where "c \<in> set al" "fst c = k" "P (snd c)" by auto
  with assms show "P v" by (metis map_of_is_SomeI option.inject prod.collapse)
next
  assume "P v"
  moreover from assms(2) have "(k, v) \<in> set al" by (rule map_of_SomeD)
  ultimately show "k \<in> set (map fst (filter (\<lambda>c. P (snd c)) al))" by force
qed

lemma drop_missing_value_columns_result:
  assumes "df < length (heap s)" and "wf_dataframe (heap s ! df)"
    and "categorical_encode df s = (Inr (), s1)"
  shows "drop_missing_value_columns cfg df key s =
     (Inr (if filter (\<lambda>c. \<not> float_gt (null_ratio (nrows (heap s ! df)) (snd c)) (missing_threshold cfg))
           (columns (heap s1 ! df)) = [] then None else Some df),
      s1\<lparr>validation_error := AList.update key
            (ColumnNames (map fst (filter (\<lambda>c. float_gt (null_ratio (nrows (heap s ! df)) (snd c))
                (missing_threshold cfg)) (columns (heap s1 ! df)))))
            (validation_error s),
         heap := (heap s1)[df := (heap s1 ! df)\<lparr>columns :=
            filter (\<lambda>c. \<not> float_gt (null_ratio (nrows (heap s ! df)) (snd c)) (missing_threshold cfg))
              (columns (heap s1 ! df))\<rparr>]\<rparr>)"
proof -
  note fr = categorical_encode_frame [OF assms(1,3)]
  have wf1: "wf_dataframe (heap s1 ! df)"
    by (rule categorical_encode_wf [OF assms(1,3,2)])
  then have d: "distinct (map fst (columns (heap s1 ! df)))"
    by (simp add: wf_dataframe_def column_names_def)
  have df1: "df < length (heap s1)" using fr(1) assms(1) by simp
  have names: "map fst (filter (\<lambda>r. float_gt (snd r) (missing_threshold cfg)) (null_report (heap s1 ! df))) =
      map fst (filter (\<lambda>c. float_gt (null_ratio (nrows (heap s ! df)) (snd c)) (missing_threshold cfg))
        (columns (heap s1 ! df)))"
    unfolding null_report_def fr(5) by (rule dropped_names_eq)
  have keep: "filter (\<lambda>c. fst c \<notin> set (map fst (filter (\<lambda>r. float_gt (snd r) (missing_threshold cfg))
          (null_report (heap s1 ! df))))) (columns (heap s1 ! df)) =
      filter (\<lambda>c. \<not> float_gt (null_ratio (nrows (heap s ! df)) (snd c)) (missing_threshold cfg))
        (columns (heap s1 ! df))"
    unfolding null_report_def fr(5) by (rule filter_dropped_names [OF d])
  note keep' = keep [unfolded names]
  show ?thesis
    unfolding drop_missing_value_columns_def wrap_exception_def and_then_def Let_def assms(3)
      prod.case sum.case drop_columns_over_threshold_eq [OF df1] names keep' fr(2)
    by simp
qed

text \<open>
  C1, as amended. For a dataframe with unique labels that has the columns
  \<open>Genotype\<close>, \<open>Treatment\<close>, \<open>Behavior\<close> and \<open>class\<close>, the latter accepted by the label
  encoder, \<^verbatim>\<open>drop_missing_value_columns\<close> returns normally; it keeps exactly the
  columns whose fraction of missing cells, counted after the encoding, does not
  exceed the threshold, and stores the names of the others under the report key. The
  encoding keeps the labels and changes only the four encoded columns.
\<close>

theorem drop_missing_value_columns_after_encoding:
  assumes "df < length (heap s)" and "wf_dataframe (heap s ! df)"
    and "map_of (columns (heap s ! df)) ''Genotype'' = Some g"
    and "map_of (columns (heap s ! df)) ''Treatment'' = Some t"
    and "map_of (columns (heap s ! df)) ''Behavior'' = Some b"
    and "map_of (columns (heap s ! df)) ''class'' = Some c"
    and "fit_transform c = Inr y"
  shows "\<exists>ret s1 s'.
     categorical_encode df s = (Inr (), s1) \<and>
     drop_missing_value_columns cfg df key s = (Inr ret, s') \<and>
     columns (heap s' ! df) =
       filter (\<lambda>c. \<not> float_gt (null_ratio (nrows (heap s ! df)) (snd c)) (missing_threshold cfg))
         (columns (heap s1 ! df)) \<and>
     map_of (validation_error s') key =
       Some (ColumnNames (map fst
         (filter (\<lambda>c. float_gt (null_ratio (nrows (heap s ! df)) (snd c)) (missing_threshold cfg))
            (columns (heap s1 ! df))))) \<and>
     column_names (heap s1 ! df) = column_names (heap s ! df) \<and>
     map_of (columns (heap s1 ! df)) =
       (map_of (columns (heap s ! df)))
         (''Genotype'' \<mapsto> series_map [(''Control'', 0), (''Ts65Dn'', 1)] g,
          ''Treatment'' \<mapsto> series_map [(''Saline'', 0), (''Memantine'', 1)] t,
          ''Behavior'' \<mapsto> series_map [(''C/S'', 0), (''S/C'', 1)] b,
          ''class'' \<mapsto> y)"
proof -
  from categorical_encode_eq [OF assms(1,3,4,5,6)] assms(7)
  obtain s1 where enc: "categorical_encode df s = (Inr (), s1)" by simp
  note fr = categorical_encode_frame [OF assms(1) enc]
  note res = drop_missing_value_columns_result [OF assms(1,2) enc, of cfg key]
  have df1: "df < length (heap s1)" using fr(1) assms(1) by simp
  from fr(7) assms(3-7) have m: "map_of (columns (heap s1 ! df)) =
       (map_of (columns (heap s ! df)))
         (''Genotype'' \<mapsto> series_map [(''Control'', 0), (''Ts65Dn'', 1)] g,
          ''Treatment'' \<mapsto> series_map [(''Saline'', 0), (''Memantine'', 1)] t,
          ''Behavior'' \<mapsto> series_map [(''C/S'', 0), (''S/C'', 1)] b,
          ''class'' \<mapsto> y)" by auto
  show ?thesis
    apply (rule exI, rule exI [of _ s1], rule exI)
    apply (intro conjI)
         apply (rule enc)
        apply (rule res)
    using df1 fr(6) m by (simp_all add: AList.update_conv')
qed

theorem drop_missing_value_columns_after_encoding_witness:
  "\<exists>ret s1 s'.
     categorical_encode 0 example_heap_state = (Inr (), s1) \<and>
     drop_missing_value_columns example_config 0 ''k'' example_heap_state = (Inr ret, s') \<and>
     columns (heap s' ! 0) =
       filter (\<lambda>c. \<not> float_gt (null_ratio (nrows (heap example_heap_state ! 0)) (snd c))
                      (missing_threshold example_config))
         (columns (heap s1 ! 0)) \<and>
     map_of (validation_error s') ''k'' =
       Some (ColumnNames (map fst
         (filter (\<lambda>c. float_gt (null_ratio (nrows (heap example_heap_state ! 0)) (snd c))
                     (missing_threshold example_config))
            (columns (heap s1 ! 0))))) \<and>
     column_names (heap s1 ! 0) = column_names (heap example_heap_state ! 0) \<and>
     map_of (columns (heap s1 ! 0)) =
       (map_of (columns (heap example_heap_state ! 0)))
         (''Genotype'' \<mapsto> series_map [(''Control'', 0), (''Ts65Dn'', 1)] [Str ''Control'', Str ''Trisomic''],
          ''Treatment'' \<mapsto> series_map [(''Saline'', 0), (''Memantine'', 1)] [Str ''Saline'', Str ''Memantine''],
          ''Behavior'' \<mapsto> series_map [(''C/S'', 0), (''S/C'', 1)] [Str ''C/S'', Str ''S/C''],
          ''class'' \<mapsto> [Num 1, Num 0])"
proof (rule drop_missing_value_columns_after_encoding)
  show "0 < length (heap example_heap_state)" by code_simp
  show "wf_dataframe (heap example_heap_state ! 0)" by code_simp
  show "map_of (columns (heap example_heap_state ! 0)) ''Genotype'' = Some [Str ''Control'', Str ''Trisomic'']"
    by code_simp
  show "map_of (columns (heap example_heap_state ! 0)) ''Treatment'' = Some [Str ''Saline'', Str ''Memantine'']"
    by code_simp
  show "map_of (columns (heap example_heap_state ! 0)) ''Behavior'' = Some [Str ''C/S'', Str ''S/C'']"
    by code_simp
  show "map_of (columns (heap example_heap_state ! 0)) ''class'' = Some [Str ''t-SC-m'', Str ''c-CS-s'']"
    by code_simp
  show "fit_transform [Str ''t-SC-m'', Str ''c-CS-s''] = Inr [Num 1, Num 0]" by code_simp
qed

text \<open>
  The fraction of missing cells of the input itself does not decide: the column
  \<open>Genotype\<close> below has no missing cell and the threshold is \<open>0.2\<close>, yet the column is
  dropped, because the value \<open>Trisomic\<close> is outside the dictionary.
\<close>

theorem drop_missing_value_columns_input_ratio_counterexample:
  "map_of (columns (heap example_heap_state ! 0)) ''Genotype'' = Some [Str ''Control'', Str ''Trisomic''] \<and>
   null_ratio (nrows (heap example_heap_state ! 0)) [Str ''Control'', Str ''Trisomic''] = Some 0 \<and>
   \<not> float_gt (Some 0) (missing_threshold example_config) \<and>
   fst (drop_missing_value_columns example_config 0 ''k'' example_heap_state) = Inr (Some 0) \<and>
   ''Genotype'' \<notin> set (column_names
      (heap (snd (drop_missing_value_columns example_config 0 ''k'' example_heap_state)) ! 0)) \<and>
   validation_error (snd (drop_missing_value_columns example_config 0 ''k'' example_heap_state)) =
     [(''k'', ColumnNames [''Genotype''])]"
  by code_simp

lemma series_map_two:
  "k0 \<noteq> k1 \<Longrightarrow> series_map [(k0, 0), (k1, 1)] col =
     map (\<lambda>v. if v = Str k0 then Num 0 else if v = Str k1 then Num 1 else NaN) col"
  by (auto simp: series_map_def split: cell.splits)

lemma categorical_encode_Inl:
  assumes "df < length (heap s)"
    and "map_of (columns (heap s ! df)) ''Genotype'' = Some g"
    and "map_of (columns (heap s ! df)) ''Treatment'' = Some t"
    and "map_of (columns (heap s ! df)) ''Behavior'' = Some b"
    and "categorical_encode df s = (Inl e, s1)"
  shows "e = KeyError ''class'' \<or> e = TypeError"
proof (cases "map_of (columns (heap s ! df)) ''class''")
  case None
  with assms show ?thesis
    by (auto simp: categorical_encode_def and_then_def getitem_def Let_def setitem_def
        AList.update_conv' split: sum.splits)
next
  case (Some c)
  from categorical_encode_eq [OF assms(1-4) Some] assms(5) show ?thesis
    by (auto simp: fit_transform_def split: sum.splits if_splits)
qed

lemma isna_eq: "isna = (\<lambda>v. v = NaN)"
  by (rule ext) (simp add: isna_def split: cell.splits)

lemma float_gt_null_ratio:
  "float_gt (null_ratio n col) t \<longleftrightarrow>
     n \<noteq> 0 \<and> t < of_nat (length (filter (\<lambda>v. v = NaN) col)) / of_nat n"
  by (simp add: float_gt_def null_ratio_def isna_eq)

lemma count_unmapped:
  "length (filter (\<lambda>v. v = NaN)
     (map (\<lambda>v. if v = Str k0 then Num 0 else if v = Str k1 then Num 1 else NaN) col)) =
   length (filter (\<lambda>v. v \<noteq> Str k0 \<and> v \<noteq> Str k1) col)"
  by (induction col) auto

text \<open>
  C7. For a dataframe with unique labels that has the columns \<open>Genotype\<close>,
  \<open>Treatment\<close> and \<open>Behavior\<close>, the dictionary encodings raise nothing:
  \<^verbatim>\<open>drop_missing_value_columns\<close> can fail only on the column \<open>class\<close> (absent, or
  refused by the label encoder). Otherwise the frame that lines 49 to 61 work on holds,
  in each of the three columns, the code 0 or 1 for the two values of the dictionary
  and NaN for every other value. The column is among the names recorded under the
  report key exactly when the table has a row and the number of its cells outside the
  dictionary, divided by the number of rows, exceeds the threshold; it is then gone
  from the dataframe, and otherwise it stays there with the encoded cells.
\<close>

theorem unmapped_values_become_missing:
  assumes "df < length (heap s)" and "wf_dataframe (heap s ! df)"
    and "map_of (columns (heap s ! df)) ''Genotype'' = Some g"
    and "map_of (columns (heap s ! df)) ''Treatment'' = Some t"
    and "map_of (columns (heap s ! df)) ''Behavior'' = Some b"
    and "drop_missing_value_columns cfg df key s = (r, s')"
  shows "r = Inl (MiceException (KeyError ''class'') In_drop_missing_value_columns) \<or>
      r = Inl (MiceException TypeError In_drop_missing_value_columns) \<or>
      (\<exists>ret s1 dropped. r = Inr ret \<and>
         categorical_encode df s = (Inr (), s1) \<and>
         drop_columns_over_threshold (missing_threshold cfg) df key s1 = (Inr ret, s') \<and>
         map_of (columns (heap s1 ! df)) ''Genotype'' =
           Some (map (\<lambda>v. if v = Str ''Control'' then Num 0
                          else if v = Str ''Ts65Dn'' then Num 1 else NaN) g) \<and>
         map_of (columns (heap s1 ! df)) ''Treatment'' =
           Some (map (\<lambda>v. if v = Str ''Saline'' then Num 0
                          else if v = Str ''Memantine'' then Num 1 else NaN) t) \<and>
         map_of (columns (heap s1 ! df)) ''Behavior'' =
           Some (map (\<lambda>v. if v = Str ''C/S'' then Num 0
                          else if v = Str ''S/C'' then Num 1 else NaN) b) \<and>
         map_of (validation_error s') key = Some (ColumnNames dropped) \<and>
         (''Genotype'' \<in> set dropped \<longleftrightarrow>
            nrows (heap s ! df) \<noteq> 0 \<and>
            missing_threshold cfg <
              of_nat (length (filter (\<lambda>v. v \<noteq> Str ''Control'' \<and> v \<noteq> Str ''Ts65Dn'') g)) /
              of_nat (nrows (heap s ! df))) \<and>
         (''Treatment'' \<in> set dropped \<longleftrightarrow>
            nrows (heap s ! df) \<noteq> 0 \<and>
            missing_threshold cfg <
              of_nat (length (filter (\<lambda>v. v \<noteq> Str ''Saline'' \<and> v \<noteq> Str ''Memantine'') t)) /
              of_nat (nrows (heap s ! df))) \<and>
         (''Behavior'' \<in> set dropped \<longleftrightarrow>
            nrows (heap s ! df) \<noteq> 0 \<and>
            missing_threshold cfg <
              of_nat (length (filter (\<lambda>v. v \<noteq> Str ''C/S'' \<and> v \<noteq> Str ''S/C'') b)) /
              of_nat (nrows (heap s ! df))) \<and>
         map_of (columns (heap s' ! df)) ''Genotype'' =
           (if ''Genotype'' \<in> set dropped then None
            else Some (map (\<lambda>v. if v = Str ''Control'' then Num 0
                                else if v = Str ''Ts65Dn'' then Num 1 else NaN) g)) \<and>
         map_of (columns (heap s' ! df)) ''Treatment'' =
           (if ''Treatment'' \<in> set dropped then None
            else Some (map (\<lambda>v. if v = Str ''Saline'' then Num 0
                                else if v = Str ''Memantine'' then Num 1 else NaN) t)) \<and>
         map_of (columns (heap s' ! df)) ''Behavior'' =
           (if ''Behavior'' \<in> set dropped then None
            else Some (map (\<lambda>v. if v = Str ''C/S'' then Num 0
                                else if v = Str ''S/C'' then Num 1 else NaN) b)))"
proof (cases "categorical_encode df s")
  case (Pair q s1)
  show ?thesis
  proof (cases q)
    case (Inl e)
    with Pair assms(6) have r: "r = Inl (MiceException e In_drop_missing_value_columns)"
      by (simp add: drop_missing_value_columns_def and_then_def wrap_exception_def)
    from categorical_encode_Inl [OF assms(1,3,4,5)] Pair Inl
    have "e = KeyError ''class'' \<or> e = TypeError" by simp
    with r show ?thesis by auto
  next
    case (Inr u)
    with Pair have enc: "categorical_encode df s = (Inr (), s1)" by simp
    note fr = categorical_encode_frame [OF assms(1) enc]
    note res = drop_missing_value_columns_result [OF assms(1,2) enc, of cfg key]
    have df1: "df < length (heap s1)" using fr(1) assms(1) by simp
    have wf1: "wf_dataframe (heap s1 ! df)"
      by (rule categorical_encode_wf [OF assms(1) enc assms(2)])
    then have d: "distinct (map fst (columns (heap s1 ! df)))"
      by (simp add: wf_dataframe_def column_names_def)
    define n where "n = nrows (heap s ! df)"
    define th where "th = missing_threshold cfg"
    define dropped where
      "dropped = map fst (filter (\<lambda>c. float_gt (null_ratio n (snd c)) th) (columns (heap s1 ! df)))"
    from fr(7) assms(3,4,5) have
      G: "map_of (columns (heap s1 ! df)) ''Genotype'' =
            Some (map (\<lambda>v. if v = Str ''Control'' then Num 0
                          else if v = Str ''Ts65Dn'' then Num 1 else NaN) g)" and
      T: "map_of (columns (heap s1 ! df)) ''Treatment'' =
            Some (map (\<lambda>v. if v = Str ''Saline'' then Num 0
                          else if v = Str ''Memantine'' then Num 1 else NaN) t)" and
      B: "map_of (columns (heap s1 ! df)) ''Behavior'' =
            Some (map (\<lambda>v. if v = Str ''C/S'' then Num 0
                          else if v = Str ''S/C'' then Num 1 else NaN) b)"
      by (auto simp: series_map_two)
    have iff: "k \<in> set dropped \<longleftrightarrow>
        nrows (heap s ! df) \<noteq> 0 \<and>
        missing_threshold cfg < of_nat (length (filter (\<lambda>v. v \<noteq> Str k0 \<and> v \<noteq> Str k1) col)) /
          of_nat (nrows (heap s ! df))"
      if "map_of (columns (heap s1 ! df)) k =
            Some (map (\<lambda>v. if v = Str k0 then Num 0 else if v = Str k1 then Num 1 else NaN) col)"
      for k k0 k1 col
      using key_dropped_iff [OF d that, where P = "\<lambda>c. float_gt (null_ratio n c) th"]
      unfolding dropped_def float_gt_null_ratio count_unmapped n_def th_def .
    have keep: "filter (\<lambda>c. \<not> float_gt (null_ratio n (snd c)) th) (columns (heap s1 ! df)) =
        filter (\<lambda>c. fst c \<notin> set dropped) (columns (heap s1 ! df))"
      unfolding dropped_def
      using filter_dropped_names [OF d, of th n] by (simp add: dropped_names_eq)
    from res assms(6) obtain ret where r: "r = Inr ret"
      and s': "s' = s1\<lparr>validation_error := AList.update key (ColumnNames dropped) (validation_error s),
           heap := (heap s1)[df := (heap s1 ! df)\<lparr>columns :=
              filter (\<lambda>c. \<not> float_gt (null_ratio n (snd c)) th) (columns (heap s1 ! df))\<rparr>]\<rparr>"
      by (auto simp: dropped_def th_def n_def)
    have step: "drop_columns_over_threshold (missing_threshold cfg) df key s1 = (Inr ret, s')"
      using assms(6) enc unfolding r
      by (simp add: drop_missing_value_columns_def and_then_def wrap_exception_def Let_def
          split: prod.splits sum.splits)
    have cols': "columns (heap s' ! df) = filter (\<lambda>c. fst c \<notin> set dropped) (columns (heap s1 ! df))"
      using df1 by (simp add: s' keep)
    have lookup: "map_of (columns (heap s' ! df)) k =
        (if k \<in> set dropped then None else map_of (columns (heap s1 ! df)) k)" for k
      unfolding cols' by (rule map_of_filter_keys)
    have ve: "map_of (validation_error s') key = Some (ColumnNames dropped)"
      by (simp add: s' AList.update_conv')
    have "\<exists>ret s1 dropped. r = Inr ret \<and>
         categorical_encode df s = (Inr (), s1) \<and>
         drop_columns_over_threshold (missing_threshold cfg) df key s1 = (Inr ret, s') \<and>
         map_of (columns (heap s1 ! df)) ''Genotype'' =
           Some (map (\<lambda>v. if v = Str ''Control'' then Num 0
                          else if v = Str ''Ts65Dn'' then Num 1 else NaN) g) \<and>
         map_of (columns (heap s1 ! df)) ''Treatment'' =
           Some (map (\<lambda>v. if v = Str ''Saline'' then Num 0
                          else if v = Str ''Memantine'' then Num 1 else NaN) t) \<and>
         map_of (columns (heap s1 ! df)) ''Behavior'' =
           Some (map (\<lambda>v. if v = Str ''C/S'' then Num 0
                          else if v = Str ''S/C'' then Num 1 else NaN) b) \<and>
         map_of (validation_error s') key = Some (ColumnNames dropped) \<and>
         (''Genotype'' \<in> set dropped \<longleftrightarrow>
            nrows (heap s ! df) \<noteq> 0 \<and>
            missing_threshold cfg <
              of_nat (length (filter (\<lambda>v. v \<noteq> Str ''Control'' \<and> v \<noteq> Str ''Ts65Dn'') g)) /
              of_nat (nrows (heap s ! df))) \<and>
         (''Treatment'' \<in> set dropped \<longleftrightarrow>
            nrows (heap s ! df) \<noteq> 0 \<and>
            missing_threshold cfg <
              of_nat (length (filter (\<lambda>v. v \<noteq> Str ''Saline'' \<and> v \<noteq> Str ''Memantine'') t)) /
              of_nat (nrows (heap s ! df))) \<and>
         (''Behavior'' \<in> set dropped \<longleftrightarrow>
            nrows (heap s ! df) \<noteq> 0 \<and>
            missing_threshold cfg <
              of_nat (length (filter (\<lambda>v. v \<noteq> Str ''C/S'' \<and> v \<noteq> Str ''S/C'') b)) /
              of_nat (nrows (heap s ! df))) \<and>
         map_of (columns (heap s' ! df)) ''Genotype'' =
           (if ''Genotype'' \<in> set dropped then None
            else Some (map (\<lambda>v. if v = Str ''Control'' then Num 0
                                else if v = Str ''Ts65Dn'' then Num 1 else NaN) g)) \<and>
         map_of (columns (heap s' ! df)) ''Treatment'' =
           (if ''Treatment'' \<in> set dropped then None
            else Some (map (\<lambda>v. if v = Str ''Saline'' then Num 0
                                else if v = Str ''Memantine'' then Num 1 else NaN) t)) \<and>
         map_of (columns (heap s' ! df)) ''Behavior'' =
           (if ''Behavior'' \<in> set dropped then None
            else Some (map (\<lambda>v. if v = Str ''C/S'' then Num 0
                                else if v = Str ''S/C'' then Num 1 else NaN) b))"
      apply (rule exI [of _ ret], rule exI [of _ s1], rule exI [of _ dropped])
      apply (intro conjI)
                 apply (rule r)
                apply (rule enc)
               apply (rule step)
              apply (rule G)
             apply (rule T)
            apply (rule B)
           apply (rule ve)
          apply (rule iff [OF G])
         apply (rule iff [OF T])
        apply (rule iff [OF B])
       apply (simp only: lookup G)
      apply (simp only: lookup T)
      apply (simp only: lookup B)
      done
    then show ?thesis by (intro disjI2)
  qed
qed


theorem unmapped_values_become_missing_witness:
  "fst (drop_missing_value_columns example_config 0 ''k'' example_heap_state) = Inr (Some 0) \<and>
   map_of (columns (heap example_heap_state ! 0)) ''Genotype'' = Some [Str ''Control'', Str ''Trisomic''] \<and>
   map_of (columns (heap (snd (categorical_encode 0 example_heap_state)) ! 0)) ''Genotype'' =
     Some [Num 0, NaN] \<and>
   length (filter (\<lambda>v. v \<noteq> Str ''Control'' \<and> v \<noteq> Str ''Ts65Dn'') [Str ''Control'', Str ''Trisomic'']) = 1 \<and>
   nrows (heap example_heap_state ! 0) = 2 \<and>
   missing_threshold example_config < 1 / 2 \<and>
   validation_error (snd (drop_missing_value_columns example_config 0 ''k'' example_heap_state)) =
     [(''k'', ColumnNames [''Genotype''])] \<and>
   map_of (columns (heap (snd (drop_missing_value_columns example_config 0 ''k'' example_heap_state)) ! 0))
     ''Genotype'' = None \<and>
   map_of (columns (heap (snd (drop_missing_value_columns example_config 0 ''k'' example_heap_state)) ! 0))
     ''Treatment'' = Some [Num 0, Num 1] \<and>
   map_of (columns (heap (snd (drop_missing_value_columns example_config 0 ''k'' example_heap_state)) ! 0))
     ''Behavior'' = Some [Num 0, Num 1]"
proof -
  let ?run = "drop_missing_value_columns example_config 0 ''k'' example_heap_state"
  have h1: "0 < length (heap example_heap_state)" by code_simp
  have h2: "wf_dataframe (heap example_heap_state ! 0)" by code_simp
  have g: "map_of (columns (heap example_heap_state ! 0)) ''Genotype'' = Some [Str ''Control'', Str ''Trisomic'']"
    by code_simp
  have t: "map_of (columns (heap example_heap_state ! 0)) ''Treatment'' = Some [Str ''Saline'', Str ''Memantine'']"
    by code_simp
  have b: "map_of (columns (heap example_heap_state ! 0)) ''Behavior'' = Some [Str ''C/S'', Str ''S/C'']"
    by code_simp
  have f: "fst ?run = Inr (Some 0)" by code_simp
  have h6: "?run = (Inr (Some 0), snd ?run)"
    by (rule prod_eqI) (simp_all add: f)
  have n: "nrows (heap example_heap_state ! 0) = 2" by code_simp
  have ve: "validation_error (snd ?run) = [(''k'', ColumnNames [''Genotype''])]" by code_simp
  from unmapped_values_become_missing [OF h1 h2 g t b h6]
  obtain ret s1 dropped where
    enc: "categorical_encode 0 example_heap_state = (Inr (), s1)" and
    G1: "map_of (columns (heap s1 ! 0)) ''Genotype'' =
           Some (map (\<lambda>v. if v = Str ''Control'' then Num 0
                          else if v = Str ''Ts65Dn'' then Num 1 else NaN) [Str ''Control'', Str ''Trisomic''])" and
    rep: "map_of (validation_error (snd ?run)) ''k'' = Some (ColumnNames dropped)" and
    Gd: "''Genotype'' \<in> set dropped \<longleftrightarrow>
            nrows (heap example_heap_state ! 0) \<noteq> 0 \<and>
            missing_threshold example_config <
              of_nat (length (filter (\<lambda>v. v \<noteq> Str ''Control'' \<and> v \<noteq> Str ''Ts65Dn'')
                 [Str ''Control'', Str ''Trisomic''])) /
              of_nat (nrows (heap example_heap_state ! 0))" and
    G': "map_of (columns (heap (snd ?run) ! 0)) ''Genotype'' =
           (if ''Genotype'' \<in> set dropped then None
            else Some (map (\<lambda>v. if v = Str ''Control'' then Num 0
                                else if v = Str ''Ts65Dn'' then Num 1 else NaN) [Str ''Control'', Str ''Trisomic'']))" and
    T': "map_of (columns (heap (snd ?run) ! 0)) ''Treatment'' =
           (if ''Treatment'' \<in> set dropped then None
            else Some (map (\<lambda>v. if v = Str ''Saline'' then Num 0
                                else if v = Str ''Memantine'' then Num 1 else NaN) [Str ''Saline'', Str ''Memantine'']))" and
    B': "map_of (columns (heap (snd ?run) ! 0)) ''Behavior'' =
           (if ''Behavior'' \<in> set dropped then None
            else Some (map (\<lambda>v. if v = Str ''C/S'' then Num 0
                                else if v = Str ''S/C'' then Num 1 else NaN) [Str ''C/S'', Str ''S/C'']))"
    by blast
  from rep have dropped: "dropped = [''Genotype'']" by (simp add: ve)
  have c3: "map_of (columns (heap (snd (categorical_encode 0 example_heap_state)) ! 0)) ''Genotype'' =
     Some [Num 0, NaN]"
    using G1 by (simp add: enc)
  have c4: "length (filter (\<lambda>v. v \<noteq> Str ''Control'' \<and> v \<noteq> Str ''Ts65Dn'') [Str ''Control'', Str ''Trisomic'']) = 1"
    by simp
  have c6: "missing_threshold example_config < 1 / 2"
    using Gd by (simp add: dropped n)
  have c8: "map_of (columns (heap (snd ?run) ! 0)) ''Genotype'' = None"
    using G' by (simp add: dropped)
  have c9: "map_of (columns (heap (snd ?run) ! 0)) ''Treatment'' = Some [Num 0, Num 1]"
    using T' by (simp add: dropped)
  have c10: "map_of (columns (heap (snd ?run) ! 0)) ''Behavior'' = Some [Num 0, Num 1]"
    using B' by (simp add: dropped)
  show ?thesis
    by (rule conjI [OF f conjI [OF g conjI [OF c3 conjI [OF c4 conjI [OF n conjI [OF c6
          conjI [OF ve conjI [OF c8 conjI [OF c9 c10]]]]]]]]])
qed

lemma list_all_filter: "list_all P xs \<Longrightarrow> list_all P (filter Q xs)"
  by (induction xs) auto

text \<open>
  C8. When \<^verbatim>\<open>drop_missing_value_columns\<close> returns and a column is left, the result
  is the dataframe, with the row count of the input and every column of that length;
  when no column is left the result is \<^verbatim>\<open>None\<close>.
\<close>

theorem drop_missing_value_columns_keeps_rows:
  assumes "df < length (heap s)" and "wf_dataframe (heap s ! df)"
    and "drop_missing_value_columns cfg df key s = (Inr ret, s')"
  shows "(columns (heap s' ! df) \<noteq> [] \<longrightarrow>
            ret = Some df \<and> nrows (heap s' ! df) = nrows (heap s ! df) \<and>
            list_all (\<lambda>c. length (snd c) = nrows (heap s ! df)) (columns (heap s' ! df))) \<and>
         (columns (heap s' ! df) = [] \<longrightarrow> ret = None)"
proof -
  from assms(3) obtain s1 where enc: "categorical_encode df s = (Inr (), s1)"
    by (auto simp: drop_missing_value_columns_Inr)
  note fr = categorical_encode_frame [OF assms(1) enc]
  note res = drop_missing_value_columns_result [OF assms(1,2) enc, of cfg key]
  have df1: "df < length (heap s1)" using fr(1) assms(1) by simp
  have "wf_dataframe (heap s1 ! df)"
    by (rule categorical_encode_wf [OF assms(1) enc assms(2)])
  then have "list_all (\<lambda>c. length (snd c) = nrows (heap s ! df)) (columns (heap s1 ! df))"
    by (simp add: wf_dataframe_def fr(5))
  then have "list_all (\<lambda>c. length (snd c) = nrows (heap s ! df))
      (filter (\<lambda>c. \<not> float_gt (null_ratio (nrows (heap s ! df)) (snd c)) (missing_threshold cfg))
         (columns (heap s1 ! df)))"
    by (rule list_all_filter)
  with res assms(3) df1 fr(5) show ?thesis by auto
qed

theorem drop_missing_value_columns_keeps_rows_witness:
  "columns (heap (snd (drop_missing_value_columns example_config 0 ''k'' example_heap_state)) ! 0) \<noteq> [] \<and>
   fst (drop_missing_value_columns example_config 0 ''k'' example_heap_state) = Inr (Some 0) \<and>
   nrows (heap (snd (drop_missing_value_columns example_config 0 ''k'' example_heap_state)) ! 0) =
     nrows (heap example_heap_state ! 0) \<and>
   list_all (\<lambda>c. length (snd c) = nrows (heap example_heap_state ! 0))
     (columns (heap (snd (drop_missing_value_columns example_config 0 ''k'' example_heap_state)) ! 0))"
proof -
  have h1: "0 < length (heap example_heap_state)" by code_simp
  have h2: "wf_dataframe (heap example_heap_state ! 0)" by code_simp
  have f: "fst (drop_missing_value_columns example_config 0 ''k'' example_heap_state) = Inr (Some 0)"
    by code_simp
  have h3: "drop_missing_value_columns example_config 0 ''k'' example_heap_state =
    (Inr (Some 0), snd (drop_missing_value_columns example_config 0 ''k'' example_heap_state))"
    by (rule prod_eqI) (simp_all add: f)
  have h4: "columns (heap (snd (drop_missing_value_columns example_config 0 ''k'' example_heap_state)) ! 0) \<noteq> []"
    by code_simp
  note kept = drop_missing_value_columns_keeps_rows [OF h1 h2 h3, THEN conjunct1, rule_format, OF h4]
  show ?thesis
    by (rule conjI [OF h4 conjI [OF f conjunct2 [OF kept]]])
qed



subsection \<open>Drift detection\<close>

lemma if_update_verdict:
  "(if g then AList.update k \<lparr>pvalues = p, same_distribution = True\<rparr> d
    else AList.update k \<lparr>pvalues = p, same_distribution = False\<rparr> d) =
   AList.update k \<lparr>pvalues = p, same_distribution = g\<rparr> d"
  by simp

lemma drift_loop_Cons:
  "drift_loop ext b c key (n0 # rest) dr s =
     and_then (getitem b n0 s) (\<lambda>bd s.
     and_then (getitem c n0 s) (\<lambda>cd s.
     and_then (ks_2samp ext bd cd, s) (\<lambda>p s.
       drift_loop ext b c key rest
         (AList.update n0 \<lparr>pvalues = p, same_distribution = float_gt p (5 / 100)\<rparr> dr)
         (s\<lparr>validation_error := AList.update key
            (DriftReport (AList.update n0 \<lparr>pvalues = p, same_distribution = float_gt p (5 / 100)\<rparr> dr))
            (validation_error s)\<rparr>))))"
  by (simp only: drift_loop.simps if_update_verdict Let_def)



lemma data_drift_eq:
  "data_drift ext b c key s =
     wrap_exception In_data_drift (drift_loop ext b c key (column_names (heap s ! b)) [] s)"
  unfolding data_drift_def Let_def ..






subsection \<open>The whole run\<close>

lemma files_and_then:
  assumes "files (snd m) = F" and "\<And>x s1. files s1 = F \<Longrightarrow> files (snd (f x s1)) = F"
  shows "files (snd (and_then m f)) = F"
  using assms by (cases m) (auto simp: and_then_def split: sum.splits)

lemma snd_wrap_exception [simp]: "snd (wrap_exception w m) = snd m"
  by (cases m) (auto simp: wrap_exception_def split: sum.splits)

lemma files_getitem [simp]: "files (snd (getitem df n s)) = files s"
  by (simp add: getitem_def split: option.splits)

lemma files_read_csv [simp]: "files (snd (read_csv p s)) = files s"
  by (simp add: read_csv_def split: option.splits file_content.splits)

lemma files_drop_columns [simp]: "files (snd (drop_columns df ns s)) = files s"
  by (simp add: drop_columns_def split: list.splits)

lemma files_replace_inplace [simp]: "files (replace_inplace df v s) = files s"
  by (simp add: replace_inplace_def)

lemma files_convert_columns_float [simp]:
  "files (snd (convert_columns_float ext df ex s)) = files s"
  by (simp add: convert_columns_float_def split: option.splits sum.splits)

lemma files_categorical_encode [simp]: "files (snd (categorical_encode df s)) = files s"
  unfolding categorical_encode_def Let_def
  by (intro files_and_then) simp_all

lemma files_drop_columns_over_threshold [simp]:
  "files (snd (drop_columns_over_threshold t df key s)) = files s"
  by (simp add: drop_columns_over_threshold_def Let_def drop_inplace_def)

lemma files_drop_missing_value_columns [simp]:
  "files (snd (drop_missing_value_columns cfg df key s)) = files s"
  unfolding drop_missing_value_columns_def Let_def snd_wrap_exception
  by (intro files_and_then) simp_all

lemma files_is_required_columns_exists [simp]:
  "files (snd (is_required_columns_exists b c key s)) = files s"
  by (simp add: is_required_columns_exists_def Let_def)

lemma files_drift_loop [simp]:
  "files (snd (drift_loop ext b c key names dr s)) = files s"
proof (induction names arbitrary: dr s)
  case Nil
  show ?case by simp
next
  case (Cons n0 rest)
  show ?case
    unfolding drift_loop_Cons
    by (intro files_and_then) (simp_all add: Cons.IH)
qed

lemma files_data_drift [simp]: "files (snd (data_drift ext b c key s)) = files s"
  unfolding data_drift_eq by simp








end
